theory Spec2Isabelle
  imports Main
begin

section \<open>Strings and the Python runtime\<close>

text \<open>
  A Python \<open>str\<close> is a sequence of Unicode code points; the keyword and token lists of
  the program are Cyrillic, so a string is a list of code points (integers), not
  a list of 8-bit characters. The ASCII literals of the source are written with
  \<open>ascii\<close>.
\<close>

type_synonym ustr = "int list"

definition ascii :: "string \<Rightarrow> ustr" where
  "ascii s = map of_char s"

text \<open>
  The Unicode tables of the interpreter are not part of the repository. They are a
  parameter of the model: \<open>isspace\<close> is the whitespace test behind \<open>str.strip()\<close> and
  the pattern \<open>\s\<close>, \<open>isdecimal\<close> the test behind \<open>\d\<close>, \<open>isalnum\<close> the test
  behind \<open>\w\<close> (which adds the underscore), and \<open>lower\<close> is \<open>str.lower()\<close>.
\<close>

record unicode_db =
  isspace :: "int \<Rightarrow> bool"
  isdecimal :: "int \<Rightarrow> bool"
  isalnum :: "int \<Rightarrow> bool"
  lower :: "ustr \<Rightarrow> ustr"

text \<open>\<open>s.strip()\<close>: leading and trailing whitespace removed.\<close>

definition strip :: "unicode_db \<Rightarrow> ustr \<Rightarrow> ustr" where
  "strip U s = rev (dropWhile (isspace U) (rev (dropWhile (isspace U) s)))"

text \<open>\<open>kw in s\<close>: the substring test.\<close>

fun has_prefix :: "ustr \<Rightarrow> ustr \<Rightarrow> bool" where
  "has_prefix [] s = True"
| "has_prefix (k # ks) [] = False"
| "has_prefix (k # ks) (c # cs) = (k = c \<and> has_prefix ks cs)"

fun str_in :: "ustr \<Rightarrow> ustr \<Rightarrow> bool" where
  "str_in kw [] = (kw = [])"
| "str_in kw (c # cs) = (has_prefix kw (c # cs) \<or> str_in kw cs)"

text \<open>\<open>str(n)\<close> for a length, and \<open>sep.join(xs)\<close>.\<close>

fun str_of_nat :: "nat \<Rightarrow> ustr" where
  "str_of_nat n =
     (if n < 10 then [48 + int n] else str_of_nat (n div 10) @ [48 + int (n mod 10)])"

declare str_of_nat.simps [simp del]


subsection \<open>Regular expressions\<close>

text \<open>
  The four patterns of the source use literals, character classes, sequence,
  alternation, bounded and unbounded repetition and the word boundary \<open>\b\<close>.
  \<open>rx_ends r w s i\<close> lists every position at which a match of \<open>r\<close> that starts at
  position \<open>i\<close> of \<open>s\<close> can end (\<open>w\<close> is the word-character test of \<open>\b\<close>).
  \<open>re.search\<close> is used only for its truth value, so greediness plays no role:
  a match exists iff some start position has some end position.
  \<open>Rep m None r\<close> is \<open>r{m,}\<close>; every repeated body in the source consumes at least one
  character, so no more than \<open>m + length s\<close> repetitions need to be tried.
\<close>

datatype rx =
    Eps
  | Cls "int \<Rightarrow> bool"
  | Seq rx rx
  | Alt rx rx
  | Rep nat "nat option" rx
  | WordB

fun lit :: "ustr \<Rightarrow> rx" where
  "lit [] = Eps"
| "lit (c # cs) = Seq (Cls (\<lambda>x. x = c)) (lit cs)"

definition step_all :: "(nat \<Rightarrow> nat list) \<Rightarrow> nat list \<Rightarrow> nat list" where
  "step_all f ps = remdups (concat (map f ps))"

fun rep_from :: "(nat \<Rightarrow> nat list) \<Rightarrow> nat \<Rightarrow> nat \<Rightarrow> nat list \<Rightarrow> nat list" where
  "rep_from f lo 0 ps = (if lo = 0 then ps else [])"
| "rep_from f lo (Suc hi) ps =
     (if lo = 0 then ps else []) @ rep_from f (lo - 1) hi (step_all f ps)"

definition at_boundary :: "(int \<Rightarrow> bool) \<Rightarrow> ustr \<Rightarrow> nat \<Rightarrow> bool" where
  "at_boundary w s i =
     ((0 < i \<and> w (s ! (i - 1))) \<noteq> (i < length s \<and> w (s ! i)))"

primrec rx_ends :: "rx \<Rightarrow> (int \<Rightarrow> bool) \<Rightarrow> ustr \<Rightarrow> nat \<Rightarrow> nat list" where
  "rx_ends Eps w s i = [i]"
| "rx_ends (Cls p) w s i = (if i < length s \<and> p (s ! i) then [Suc i] else [])"
| "rx_ends (Seq a b) w s i = concat (map (rx_ends b w s) (rx_ends a w s i))"
| "rx_ends (Alt a b) w s i = rx_ends a w s i @ rx_ends b w s i"
| "rx_ends (Rep m n r) w s i =
     rep_from (rx_ends r w s) m (case n of None \<Rightarrow> m + length s | Some k \<Rightarrow> k) [i]"
| "rx_ends WordB w s i = (if at_boundary w s i then [i] else [])"

definition isword :: "unicode_db \<Rightarrow> int \<Rightarrow> bool" where
  "isword U c = (isalnum U c \<or> c = 95)"

definition re_search :: "unicode_db \<Rightarrow> rx \<Rightarrow> ustr \<Rightarrow> bool" where
  "re_search U r s = list_ex (\<lambda>i. rx_ends r (isword U) s i \<noteq> []) [0..<Suc (length s)]"

section \<open>The classifier\<close>

record LeadDecision =
  is_lead :: bool
  reasons :: "ustr list"
  category :: ustr

record LeadAnalyzer =
  buy_keywords :: "ustr list"
  sell_keywords :: "ustr list"
  urgency_keywords :: "ustr list"
  realtor_keywords :: "ustr list"
  detail_keywords :: "ustr list"
  require_explicit_intent :: bool
  min_details_required :: int
  contact_bonus :: bool

subsection \<open>Configuration\<close>

text \<open>
  The \<open>keywords\<close> and \<open>rules\<close> sections of the configuration document. A keyword list
  may be absent (\<open>None\<close>) and may hold entries that are not strings; a rule may be
  absent.
\<close>

datatype jentry = JStr ustr | JOther

record config =
  kw_buy :: "jentry list option"
  kw_sell :: "jentry list option"
  kw_urgency_interest :: "jentry list option"
  kw_realtor_help :: "jentry list option"
  kw_details :: "jentry list option"
  rule_require_explicit_intent :: "bool option"
  rule_min_details_required :: "int option"
  rule_contact_bonus :: "bool option"

definition normalize_list :: "unicode_db \<Rightarrow> jentry list \<Rightarrow> ustr list" where
  "normalize_list U values =
     List.map_filter
       (\<lambda>v. case v of
               JStr t \<Rightarrow> if strip U t \<noteq> [] then Some (lower U (strip U t)) else None
             | JOther \<Rightarrow> None)
       values"

definition get_default :: "'a option \<Rightarrow> 'a \<Rightarrow> 'a" where
  "get_default v d = (case v of None \<Rightarrow> d | Some x \<Rightarrow> x)"

definition LeadAnalyzer_init :: "unicode_db \<Rightarrow> config \<Rightarrow> LeadAnalyzer" where
  "LeadAnalyzer_init U cfg =
     (let m = get_default (rule_min_details_required cfg) 1 in
      \<lparr> buy_keywords = normalize_list U (get_default (kw_buy cfg) []),
        sell_keywords = normalize_list U (get_default (kw_sell cfg) []),
        urgency_keywords = normalize_list U (get_default (kw_urgency_interest cfg) []),
        realtor_keywords = normalize_list U (get_default (kw_realtor_help cfg) []),
        detail_keywords = normalize_list U (get_default (kw_details cfg) []),
        require_explicit_intent = get_default (rule_require_explicit_intent cfg) True,
        min_details_required = (if m < 0 then 0 else m),
        contact_bonus = get_default (rule_contact_bonus cfg) True \<rparr>)"

subsection \<open>Tokens and patterns\<close>

text \<open>
  The Cyrillic tokens of the source, as code points. In Latin transliteration:
  byudzhet, the rouble sign, rub, rublej, "r.", rajon, metro, "ul.", ulitsa, gorod, zhk,
  etazh, ploshchad', m-superscript-two, "kv.m", m2.
\<close>

definition tok_byudzhet :: ustr where "tok_byudzhet = [1073, 1102, 1076, 1078, 1077, 1090]"
definition tok_rouble_sign :: ustr where "tok_rouble_sign = [8381]"
definition tok_rub :: ustr where "tok_rub = [1088, 1091, 1073]"
definition tok_rublej :: ustr where "tok_rublej = [1088, 1091, 1073, 1083, 1077, 1081]"
definition tok_r_dot :: ustr where "tok_r_dot = [1088, 46]"
definition tok_rajon :: ustr where "tok_rajon = [1088, 1072, 1081, 1086, 1085]"
definition tok_metro :: ustr where "tok_metro = [1084, 1077, 1090, 1088, 1086]"
definition tok_ul_dot :: ustr where "tok_ul_dot = [1091, 1083, 46]"
definition tok_ulitsa :: ustr where "tok_ulitsa = [1091, 1083, 1080, 1094, 1072]"
definition tok_gorod :: ustr where "tok_gorod = [1075, 1086, 1088, 1086, 1076]"
definition tok_zhk :: ustr where "tok_zhk = [1078, 1082]"
definition tok_etazh :: ustr where "tok_etazh = [1101, 1090, 1072, 1078]"
definition tok_ploshchad :: ustr where "tok_ploshchad = [1087, 1083, 1086, 1097, 1072, 1076, 1100]"
definition tok_m_sq :: ustr where "tok_m_sq = [1084, 178]"
definition tok_kv_m :: ustr where "tok_kv_m = [1082, 1074, 46, 1084]"
definition tok_m2 :: ustr where "tok_m2 = [1084, 50]"

text \<open>The class \<open>[\s\-()]\<close> of the phone pattern.\<close>

definition phone_sep :: "unicode_db \<Rightarrow> int \<Rightarrow> bool" where
  "phone_sep U c = (isspace U c \<or> c = 45 \<or> c = 40 \<or> c = 41)"

text \<open>\<open>(?:(?:\+7|7|8)[\s\-()]*)?(?:\d[\s\-()]*){10,11}\<close>\<close>

definition PHONE_REGEX :: "unicode_db \<Rightarrow> rx" where
  "PHONE_REGEX U =
     Seq (Rep 0 (Some 1)
            (Seq (Alt (lit [43, 55]) (Alt (lit [55]) (lit [56])))
                 (Rep 0 None (Cls (phone_sep U)))))
         (Rep 10 (Some 11) (Seq (Cls (isdecimal U)) (Rep 0 None (Cls (phone_sep U)))))"

text \<open>
  \<open>[\w.+\-]+@[\w\-]+\.[\w.\-]+\<close>. The pattern has no cased literal, so the flag
  IGNORECASE changes nothing.
\<close>

definition EMAIL_REGEX :: "unicode_db \<Rightarrow> rx" where
  "EMAIL_REGEX U =
     Seq (Rep 1 None (Cls (\<lambda>c. isword U c \<or> c = 46 \<or> c = 43 \<or> c = 45)))
    (Seq (Cls (\<lambda>c. c = 64))
    (Seq (Rep 1 None (Cls (\<lambda>c. isword U c \<or> c = 45)))
    (Seq (Cls (\<lambda>c. c = 46))
         (Rep 1 None (Cls (\<lambda>c. isword U c \<or> c = 46 \<or> c = 45))))))"

text \<open>\<open>\b\d{2,}\s?(?:rouble sign|rub|rublej|r\.)\<close>\<close>

definition budget_rx :: "unicode_db \<Rightarrow> rx" where
  "budget_rx U =
     Seq WordB
    (Seq (Rep 2 None (Cls (isdecimal U)))
    (Seq (Rep 0 (Some 1) (Cls (isspace U)))
         (Alt (lit tok_rouble_sign) (Alt (lit tok_rub) (Alt (lit tok_rublej) (lit tok_r_dot))))))"

text \<open>\<open>\b\d{1,4}\s?(?:m-superscript-two|kv\.m|m2)\b\<close>\<close>

definition area_rx :: "unicode_db \<Rightarrow> rx" where
  "area_rx U =
     Seq WordB
    (Seq (Rep 1 (Some 4) (Cls (isdecimal U)))
    (Seq (Rep 0 (Some 1) (Cls (isspace U)))
    (Seq (Alt (lit tok_m_sq) (Alt (lit tok_kv_m) (lit tok_m2)))
         WordB)))"

subsection \<open>The signals\<close>

definition keyword_hits :: "ustr list \<Rightarrow> ustr \<Rightarrow> ustr list" where
  "keyword_hits kws cleaned = filter (\<lambda>kw. str_in kw cleaned) kws"

definition has_budget :: "unicode_db \<Rightarrow> ustr \<Rightarrow> bool" where
  "has_budget U cleaned =
     (re_search U (budget_rx U) cleaned \<or>
      list_ex (\<lambda>token. str_in token cleaned) [tok_byudzhet, tok_rouble_sign, tok_rub, tok_rublej])"

definition has_location :: "ustr \<Rightarrow> bool" where
  "has_location cleaned =
     list_ex (\<lambda>token. str_in token cleaned)
       [tok_rajon, tok_metro, tok_ul_dot, tok_ulitsa, tok_gorod, tok_zhk, tok_etazh]"

definition has_area :: "unicode_db \<Rightarrow> ustr \<Rightarrow> bool" where
  "has_area U cleaned =
     (re_search U (area_rx U) cleaned \<or>
      list_ex (\<lambda>token. str_in token cleaned) [tok_ploshchad, tok_m_sq, tok_kv_m])"

definition has_contact :: "unicode_db \<Rightarrow> ustr \<Rightarrow> bool" where
  "has_contact U cleaned =
     (re_search U (PHONE_REGEX U) cleaned \<or> re_search U (EMAIL_REGEX U) cleaned)"

text \<open>\<open>sum([has_budget, has_location, has_area])\<close>: a true flag counts 1.\<close>

definition details_score :: "unicode_db \<Rightarrow> ustr \<Rightarrow> int" where
  "details_score U cleaned =
     sum_list (map (\<lambda>b. if b then 1 else 0) [has_budget U cleaned, has_location cleaned, has_area U cleaned])"

subsection \<open>Category, reasons, score\<close>

text \<open>The \<open>if\<close>/\<open>elif\<close> chain that sets \<open>category\<close>.\<close>

definition resolve_category :: "ustr list \<Rightarrow> ustr list \<Rightarrow> ustr list \<Rightarrow> ustr" where
  "resolve_category buy_hits sell_hits realtor_hits =
     (if buy_hits \<noteq> [] \<and> \<not> sell_hits \<noteq> [] then ascii ''buy''
      else if sell_hits \<noteq> [] \<and> \<not> buy_hits \<noteq> [] then ascii ''sell''
      else if buy_hits \<noteq> [] \<and> sell_hits \<noteq> [] then ascii ''mixed''
      else if realtor_hits \<noteq> [] then ascii ''realtor_help''
      else ascii ''none'')"

text \<open>The nine conditional \<open>reasons.append\<close> statements, in the order of the source.\<close>

definition assemble_reasons ::
  "ustr list \<Rightarrow> ustr list \<Rightarrow> ustr list \<Rightarrow> ustr list \<Rightarrow> ustr list \<Rightarrow>
   bool \<Rightarrow> bool \<Rightarrow> bool \<Rightarrow> bool \<Rightarrow> ustr list" where
  "assemble_reasons buy_hits sell_hits urgency_hits realtor_hits detail_hits
       budget location area contact =
     (let rs = [];
          rs = (if buy_hits \<noteq> []
                then rs @ [ascii ''buy_keywords:'' @ str_of_nat (length buy_hits)] else rs);
          rs = (if sell_hits \<noteq> []
                then rs @ [ascii ''sell_keywords:'' @ str_of_nat (length sell_hits)] else rs);
          rs = (if urgency_hits \<noteq> []
                then rs @ [ascii ''urgency_keywords:'' @ str_of_nat (length urgency_hits)] else rs);
          rs = (if realtor_hits \<noteq> []
                then rs @ [ascii ''realtor_keywords:'' @ str_of_nat (length realtor_hits)] else rs);
          rs = (if detail_hits \<noteq> []
                then rs @ [ascii ''detail_keywords:'' @ str_of_nat (length detail_hits)] else rs);
          rs = (if budget then rs @ [ascii ''has_budget''] else rs);
          rs = (if location then rs @ [ascii ''has_location''] else rs);
          rs = (if area then rs @ [ascii ''has_area''] else rs);
          rs = (if contact then rs @ [ascii ''has_contact''] else rs)
      in rs)"

text \<open>The five conditional increments of \<open>lead_score\<close>.\<close>

definition lead_score ::
  "ustr list \<Rightarrow> int \<Rightarrow> ustr list \<Rightarrow> ustr list \<Rightarrow> bool \<Rightarrow> bool \<Rightarrow> int" where
  "lead_score intent_hits dscore urgency_hits realtor_hits bonus contact =
     (let sc = 0;
          sc = (if intent_hits \<noteq> [] then sc + 2 else sc);
          sc = (if dscore > 0 then sc + dscore else sc);
          sc = (if urgency_hits \<noteq> [] then sc + 1 else sc);
          sc = (if realtor_hits \<noteq> [] then sc + 1 else sc);
          sc = (if bonus \<and> contact then sc + 1 else sc)
      in sc)"

subsection \<open>analyze\<close>

text \<open>\<open>(text or "").strip().lower()\<close>; an absent text is \<open>None\<close>.\<close>

definition cleaned_text :: "unicode_db \<Rightarrow> ustr option \<Rightarrow> ustr" where
  "cleaned_text U text = lower U (strip U (case text of None \<Rightarrow> [] | Some t \<Rightarrow> if t \<noteq> [] then t else []))"

definition analyze :: "unicode_db \<Rightarrow> LeadAnalyzer \<Rightarrow> ustr option \<Rightarrow> LeadDecision" where
  "analyze U self text =
     (let cleaned = cleaned_text U text in
      if cleaned = [] then
        \<lparr>is_lead = False, reasons = [ascii ''empty_message''], category = ascii ''none''\<rparr>
      else
        let buy_hits = keyword_hits (buy_keywords self) cleaned;
            sell_hits = keyword_hits (sell_keywords self) cleaned;
            urgency_hits = keyword_hits (urgency_keywords self) cleaned;
            realtor_hits = keyword_hits (realtor_keywords self) cleaned;
            detail_hits = keyword_hits (detail_keywords self) cleaned;
            budget = has_budget U cleaned;
            location = has_location cleaned;
            area = has_area U cleaned;
            contact = has_contact U cleaned;
            dscore = details_score U cleaned;
            intent_hits = buy_hits @ sell_hits;
            cat = resolve_category buy_hits sell_hits realtor_hits;
            rs = assemble_reasons buy_hits sell_hits urgency_hits realtor_hits detail_hits
                   budget location area contact
        in
          if require_explicit_intent self \<and> \<not> intent_hits \<noteq> [] \<and> \<not> realtor_hits \<noteq> [] then
            \<lparr>is_lead = False, reasons = rs @ [ascii ''no_intent''], category = cat\<rparr>
          else if dscore < min_details_required self \<and> \<not> contact then
            \<lparr>is_lead = False, reasons = rs @ [ascii ''insufficient_details''], category = cat\<rparr>
          else
            \<lparr>is_lead =
                (lead_score intent_hits dscore urgency_hits realtor_hits
                   (contact_bonus self) contact \<ge> 3),
              reasons = rs, category = cat\<rparr>)"

section \<open>The store\<close>
























section \<open>The notification target\<close>

text \<open>
  The \<open>notification\<close> section. \<open>target_bot_username\<close> is a string or absent;
  \<open>target_telegram_id\<close> is an integer, the JSON null, or absent.
\<close>

datatype id_entry = Absent | Null | IntVal int

record notification =
  target_telegram_id :: id_entry
  target_bot_username :: "ustr option"

datatype py_error = KeyError | TypeError

datatype target = TargetId int | TargetHandle ustr

text \<open>\<open>int(notification["target_telegram_id"])\<close>\<close>

definition target_id_of :: "notification \<Rightarrow> py_error + target" where
  "target_id_of n =
     (case target_telegram_id n of
        Absent \<Rightarrow> Inl KeyError
      | Null \<Rightarrow> Inl TypeError
      | IntVal i \<Rightarrow> Inr (TargetId i))"

definition resolve_notification_target :: "unicode_db \<Rightarrow> notification \<Rightarrow> py_error + target" where
  "resolve_notification_target U n =
     (case target_bot_username n of
        None \<Rightarrow> target_id_of n
      | Some h \<Rightarrow> if h \<noteq> [] then Inr (TargetHandle (strip U h)) else target_id_of n)"

section \<open>Concrete tables for evaluating examples\<close>

text \<open>
  The Unicode tables restricted to ASCII and the Cyrillic block: the whitespace code
  points, the ASCII digits, ASCII and Cyrillic letters, and the lowercase of ASCII and
  Cyrillic capitals.
\<close>

definition ascii_cyrillic_db :: unicode_db where
  "ascii_cyrillic_db =
     \<lparr> isspace = (\<lambda>c. list_ex (\<lambda>x. x = c)
                   [9, 10, 11, 12, 13, 28, 29, 30, 31, 32, 133, 160, 5760,
                    8232, 8233, 8239, 8287, 12288]
                 \<or> (8192 \<le> c \<and> c \<le> 8202)),
       isdecimal = (\<lambda>c. 48 \<le> c \<and> c \<le> 57),
       isalnum = (\<lambda>c. (48 \<le> c \<and> c \<le> 57) \<or> (65 \<le> c \<and> c \<le> 90) \<or> (97 \<le> c \<and> c \<le> 122)
                 \<or> (1024 \<le> c \<and> c \<le> 1153) \<or> (1162 \<le> c \<and> c \<le> 1327)),
       lower = map (\<lambda>c. if 65 \<le> c \<and> c \<le> 90 then c + 32
                        else if 1040 \<le> c \<and> c \<le> 1071 then c + 32
                        else if 1024 \<le> c \<and> c \<le> 1039 then c + 80
                        else c) \<rparr>"


text \<open>
  An example configuration: one keyword per list (Kuplyu with a capital letter, prodam,
  srochno, rieltor, kvartir) and no rule given, so the defaults apply. The example
  texts are "Kuplyu kvartiru, rajon", "rajon", "kuplyu", "kuplyu a@b.c" and one blank.
\<close>

definition example_config :: config where
  "example_config =
     \<lparr> kw_buy = Some [JStr [1050, 1091, 1087, 1083, 1102]],
       kw_sell = Some [JStr [1087, 1088, 1086, 1076, 1072, 1084]],
       kw_urgency_interest = Some [JStr [1089, 1088, 1086, 1095, 1085, 1086]],
       kw_realtor_help = Some [JStr [1088, 1080, 1077, 1083, 1090, 1086, 1088]],
       kw_details = Some [JStr [1082, 1074, 1072, 1088, 1090, 1080, 1088], JOther],
       rule_require_explicit_intent = None,
       rule_min_details_required = None,
       rule_contact_bonus = None \<rparr>"

definition text_buy_flat :: ustr where
  "text_buy_flat = [1050, 1091, 1087, 1083, 1102, 32, 1082, 1074, 1072, 1088, 1090, 1080,
                    1088, 1091, 44, 32, 1088, 1072, 1081, 1086, 1085]"

definition text_rajon :: ustr where
  "text_rajon = [1088, 1072, 1081, 1086, 1085]"

definition text_kuplyu :: ustr where
  "text_kuplyu = [1082, 1091, 1087, 1083, 1102]"

definition text_kuplyu_mail :: ustr where
  "text_kuplyu_mail = [1082, 1091, 1087, 1083, 1102, 32, 97, 64, 98, 46, 99]"

definition text_blank :: ustr where
  "text_blank = [32]"







text \<open>Example notification sections: both targets given, and an empty handle.\<close>

definition notification_both :: notification where
  "notification_both =
     \<lparr> target_telegram_id = IntVal 12345, target_bot_username = Some (ascii '' @my_leads_bot '') \<rparr>"

definition notification_empty_handle :: notification where
  "notification_empty_handle =
     \<lparr> target_telegram_id = IntVal 12345, target_bot_username = Some [] \<rparr>"

section \<open>Notation for the quantities of one call of analyze\<close>

abbreviation decide :: "unicode_db \<Rightarrow> config \<Rightarrow> ustr option \<Rightarrow> LeadDecision" where
  "decide U cfg text \<equiv> analyze U (LeadAnalyzer_init U cfg) text"

abbreviation buy_hits :: "unicode_db \<Rightarrow> config \<Rightarrow> ustr option \<Rightarrow> ustr list" where
  "buy_hits U cfg text \<equiv>
     keyword_hits (buy_keywords (LeadAnalyzer_init U cfg)) (cleaned_text U text)"

abbreviation sell_hits :: "unicode_db \<Rightarrow> config \<Rightarrow> ustr option \<Rightarrow> ustr list" where
  "sell_hits U cfg text \<equiv>
     keyword_hits (sell_keywords (LeadAnalyzer_init U cfg)) (cleaned_text U text)"

abbreviation urgency_hits :: "unicode_db \<Rightarrow> config \<Rightarrow> ustr option \<Rightarrow> ustr list" where
  "urgency_hits U cfg text \<equiv>
     keyword_hits (urgency_keywords (LeadAnalyzer_init U cfg)) (cleaned_text U text)"

abbreviation realtor_hits :: "unicode_db \<Rightarrow> config \<Rightarrow> ustr option \<Rightarrow> ustr list" where
  "realtor_hits U cfg text \<equiv>
     keyword_hits (realtor_keywords (LeadAnalyzer_init U cfg)) (cleaned_text U text)"

abbreviation detail_hits :: "unicode_db \<Rightarrow> config \<Rightarrow> ustr option \<Rightarrow> ustr list" where
  "detail_hits U cfg text \<equiv>
     keyword_hits (detail_keywords (LeadAnalyzer_init U cfg)) (cleaned_text U text)"

abbreviation budget_flag :: "unicode_db \<Rightarrow> ustr option \<Rightarrow> bool" where
  "budget_flag U text \<equiv> has_budget U (cleaned_text U text)"

abbreviation location_flag :: "unicode_db \<Rightarrow> ustr option \<Rightarrow> bool" where
  "location_flag U text \<equiv> has_location (cleaned_text U text)"

abbreviation area_flag :: "unicode_db \<Rightarrow> ustr option \<Rightarrow> bool" where
  "area_flag U text \<equiv> has_area U (cleaned_text U text)"

abbreviation contact_flag :: "unicode_db \<Rightarrow> ustr option \<Rightarrow> bool" where
  "contact_flag U text \<equiv> has_contact U (cleaned_text U text)"

abbreviation dscore :: "unicode_db \<Rightarrow> ustr option \<Rightarrow> int" where
  "dscore U text \<equiv> details_score U (cleaned_text U text)"

abbreviation assembled :: "unicode_db \<Rightarrow> config \<Rightarrow> ustr option \<Rightarrow> ustr list" where
  "assembled U cfg text \<equiv>
     assemble_reasons (buy_hits U cfg text) (sell_hits U cfg text) (urgency_hits U cfg text)
       (realtor_hits U cfg text) (detail_hits U cfg text)
       (budget_flag U text) (location_flag U text) (area_flag U text) (contact_flag U text)"

abbreviation computed_category :: "unicode_db \<Rightarrow> config \<Rightarrow> ustr option \<Rightarrow> ustr" where
  "computed_category U cfg text \<equiv>
     resolve_category (buy_hits U cfg text) (sell_hits U cfg text) (realtor_hits U cfg text)"

text \<open>The conditions of the two early returns, and the decision of the last return.\<close>

abbreviation gate1_rejects :: "unicode_db \<Rightarrow> config \<Rightarrow> ustr option \<Rightarrow> bool" where
  "gate1_rejects U cfg text \<equiv>
     (require_explicit_intent (LeadAnalyzer_init U cfg) \<and> buy_hits U cfg text = [] \<and>
      sell_hits U cfg text = [] \<and> realtor_hits U cfg text = [])"

abbreviation gate2_rejects :: "unicode_db \<Rightarrow> config \<Rightarrow> ustr option \<Rightarrow> bool" where
  "gate2_rejects U cfg text \<equiv>
     (dscore U text < min_details_required (LeadAnalyzer_init U cfg) \<and> \<not> contact_flag U text)"

abbreviation scored :: "unicode_db \<Rightarrow> config \<Rightarrow> ustr option \<Rightarrow> LeadDecision" where
  "scored U cfg text \<equiv>
     \<lparr> is_lead =
         (3 \<le> lead_score (buy_hits U cfg text @ sell_hits U cfg text) (dscore U text)
                 (urgency_hits U cfg text) (realtor_hits U cfg text)
                 (contact_bonus (LeadAnalyzer_init U cfg)) (contact_flag U text)),
       reasons = assembled U cfg text,
       category = computed_category U cfg text \<rparr>"

section \<open>Properties of the classifier\<close>

lemma ascii_Cons: "ascii (c # cs) = of_char c # ascii cs"
  by (simp add: ascii_def)

lemma ascii_Nil: "ascii [] = []"
  by (simp add: ascii_def)

lemma gate_tag_notin:
  "ascii ''no_intent'' \<notin> set (assemble_reasons bh sh uh rh dh b l a c)"
  "ascii ''insufficient_details'' \<notin> set (assemble_reasons bh sh uh rh dh b l a c)"
  by (simp_all add: assemble_reasons_def Let_def ascii_Cons ascii_Nil)

lemma analyze_nonempty:
  assumes "cleaned_text U text \<noteq> []"
  shows "decide U cfg text =
     (if gate1_rejects U cfg text then
        \<lparr>is_lead = False, reasons = assembled U cfg text @ [ascii ''no_intent''],
          category = computed_category U cfg text\<rparr>
      else if gate2_rejects U cfg text then
        \<lparr>is_lead = False, reasons = assembled U cfg text @ [ascii ''insufficient_details''],
          category = computed_category U cfg text\<rparr>
      else scored U cfg text)"
  using assms by (simp add: analyze_def Let_def)

lemma analyze_empty:
  assumes "cleaned_text U text = []"
  shows "analyze U self text =
           \<lparr>is_lead = False, reasons = [ascii ''empty_message''], category = ascii ''none''\<rparr>"
  using assms by (simp add: analyze_def)

lemma lead_score_sum:
  "lead_score (bh @ sh) d uh rh bonus contact =
     (if bh \<noteq> [] \<or> sh \<noteq> [] then 2 else 0) + (if 0 < d then d else 0)
     + (if uh \<noteq> [] then 1 else 0) + (if rh \<noteq> [] then 1 else 0)
     + (if bonus \<and> contact then 1 else 0)"
  by (simp add: lead_score_def Let_def)

lemma category_names_distinct:
  "ascii ''buy'' \<noteq> ascii ''none''" "ascii ''sell'' \<noteq> ascii ''none''"
  "ascii ''mixed'' \<noteq> ascii ''none''" "ascii ''realtor_help'' \<noteq> ascii ''none''"
  by (simp_all add: ascii_Cons ascii_Nil)

text \<open>
  Claim C2. For a text whose cleaned form is not empty and that neither gate rejects,
  the decision is a lead exactly when the score is at least 3, where the score is 2 for
  any buy or sell hit, plus the details score when it is positive, plus 1 for any urgency
  hit, plus 1 for any realtor hit, plus 1 when the contact bonus is on and a contact was
  found; and the reasons hold neither \<open>no_intent\<close> nor \<open>insufficient_details\<close>.
\<close>

theorem scoring_after_both_gates:
  assumes "cleaned_text U text \<noteq> []"
    and "\<not> gate1_rejects U cfg text"
    and "\<not> gate2_rejects U cfg text"
  shows "is_lead (decide U cfg text) =
           (3 \<le> (if buy_hits U cfg text \<noteq> [] \<or> sell_hits U cfg text \<noteq> [] then 2 else 0)
               + (if 0 < dscore U text then dscore U text else 0)
               + (if urgency_hits U cfg text \<noteq> [] then 1 else 0)
               + (if realtor_hits U cfg text \<noteq> [] then 1 else 0)
               + (if contact_bonus (LeadAnalyzer_init U cfg) \<and> contact_flag U text
                  then 1 else 0))
       \<and> ascii ''no_intent'' \<notin> set (reasons (decide U cfg text))
       \<and> ascii ''insufficient_details'' \<notin> set (reasons (decide U cfg text))"
proof -
  have d: "decide U cfg text = scored U cfg text"
    using assms by (simp add: analyze_nonempty)
  show ?thesis
    unfolding d by (simp add: lead_score_sum gate_tag_notin)
qed

theorem scoring_after_both_gates_witness:
  "cleaned_text ascii_cyrillic_db (Some text_buy_flat) \<noteq> []
   \<and> \<not> gate1_rejects ascii_cyrillic_db example_config (Some text_buy_flat)
   \<and> \<not> gate2_rejects ascii_cyrillic_db example_config (Some text_buy_flat)
   \<and> is_lead (decide ascii_cyrillic_db example_config (Some text_buy_flat))
   \<and> ascii ''no_intent'' \<notin> set (reasons (decide ascii_cyrillic_db example_config (Some text_buy_flat)))"
proof -
  have h1: "cleaned_text ascii_cyrillic_db (Some text_buy_flat) \<noteq> []"
    by code_simp
  have h2: "\<not> gate1_rejects ascii_cyrillic_db example_config (Some text_buy_flat)"
    by code_simp
  have h3: "\<not> gate2_rejects ascii_cyrillic_db example_config (Some text_buy_flat)"
    by code_simp
  have v: "buy_hits ascii_cyrillic_db example_config (Some text_buy_flat) \<noteq> []"
          "dscore ascii_cyrillic_db (Some text_buy_flat) = 1"
    by code_simp+
  from scoring_after_both_gates [OF h1 h2 h3] v h1 h2 h3 show ?thesis
    by simp
qed

text \<open>
  Claim C3, as stated for any text, fails on a blank message: with explicit intent
  required and no keyword in the text, the early return for an empty cleaned text gives
  the single reason \<open>empty_message\<close> and no \<open>no_intent\<close>.
\<close>

theorem no_intent_counterexample:
  "require_explicit_intent (LeadAnalyzer_init ascii_cyrillic_db example_config)
   \<and> buy_hits ascii_cyrillic_db example_config (Some text_blank) = []
   \<and> sell_hits ascii_cyrillic_db example_config (Some text_blank) = []
   \<and> realtor_hits ascii_cyrillic_db example_config (Some text_blank) = []
   \<and> reasons (decide ascii_cyrillic_db example_config (Some text_blank)) = [ascii ''empty_message'']
   \<and> ascii ''no_intent'' \<notin> set (reasons (decide ascii_cyrillic_db example_config (Some text_blank)))"
  by code_simp

text \<open>
  Claim C3, amended. When explicit intent is required, a text whose cleaned form is not
  empty and that holds no buy, sell or realtor-help keyword gives a decision that is not
  a lead, whose reasons are the assembled reasons followed by \<open>no_intent\<close>, and whose
  category is the computed one, which is \<open>none\<close>.
\<close>

theorem no_intent_gate:
  assumes "cleaned_text U text \<noteq> []"
    and "require_explicit_intent (LeadAnalyzer_init U cfg)"
    and "buy_hits U cfg text = []"
    and "sell_hits U cfg text = []"
    and "realtor_hits U cfg text = []"
  shows "decide U cfg text =
           \<lparr>is_lead = False, reasons = assembled U cfg text @ [ascii ''no_intent''],
             category = computed_category U cfg text\<rparr>
         \<and> computed_category U cfg text = ascii ''none''"
  using assms by (simp add: analyze_nonempty resolve_category_def)

theorem no_intent_gate_witness:
  "cleaned_text ascii_cyrillic_db (Some text_rajon) \<noteq> []
   \<and> require_explicit_intent (LeadAnalyzer_init ascii_cyrillic_db example_config)
   \<and> decide ascii_cyrillic_db example_config (Some text_rajon) =
       \<lparr>is_lead = False, reasons = [ascii ''has_location'', ascii ''no_intent''],
         category = ascii ''none''\<rparr>"
proof -
  have h1: "cleaned_text ascii_cyrillic_db (Some text_rajon) \<noteq> []"
    by code_simp
  have h2: "require_explicit_intent (LeadAnalyzer_init ascii_cyrillic_db example_config)"
    by code_simp
  have h3: "buy_hits ascii_cyrillic_db example_config (Some text_rajon) = []"
    by code_simp
  have h4: "sell_hits ascii_cyrillic_db example_config (Some text_rajon) = []"
    by code_simp
  have h5: "realtor_hits ascii_cyrillic_db example_config (Some text_rajon) = []"
    by code_simp
  have v: "assembled ascii_cyrillic_db example_config (Some text_rajon) = [ascii ''has_location'']"
    by code_simp
  from no_intent_gate [OF h1 h2 h3 h4 h5] v h1 h2 show ?thesis
    by simp
qed


lemma analyze_gate1:
  assumes "cleaned_text U text \<noteq> []" and "gate1_rejects U cfg text"
  shows "decide U cfg text =
           \<lparr>is_lead = False, reasons = assembled U cfg text @ [ascii ''no_intent''],
             category = computed_category U cfg text\<rparr>"
  by (subst analyze_nonempty [OF assms(1)]) (rule if_P [OF assms(2)])

lemma analyze_gate2:
  assumes "cleaned_text U text \<noteq> []" and "\<not> gate1_rejects U cfg text"
    and "gate2_rejects U cfg text"
  shows "decide U cfg text =
           \<lparr>is_lead = False, reasons = assembled U cfg text @ [ascii ''insufficient_details''],
             category = computed_category U cfg text\<rparr>"
  by (subst analyze_nonempty [OF assms(1)])
     (simp only: if_not_P [OF assms(2)] if_P [OF assms(3)])

lemma analyze_scored:
  assumes "cleaned_text U text \<noteq> []" and "\<not> gate1_rejects U cfg text"
    and "\<not> gate2_rejects U cfg text"
  shows "decide U cfg text = scored U cfg text"
  by (subst analyze_nonempty [OF assms(1)])
     (simp only: if_not_P [OF assms(2)] if_not_P [OF assms(3)])

lemma scored_reasons:
  "ascii ''no_intent'' \<notin> set (reasons (scored U cfg text))"
  "ascii ''insufficient_details'' \<notin> set (reasons (scored U cfg text))"
  by (simp_all add: gate_tag_notin)

text \<open>
  Claim C4. For a text that reaches gate 2 (its cleaned form is not empty and gate 1 does
  not reject it): with the details score equal to \<open>min_details_required\<close> and no
  contact, the decision is the scored one and carries no \<open>insufficient_details\<close>;
  with the details score below \<open>min_details_required\<close> and no contact, the decision
  is not a lead, its reasons are the assembled reasons followed by
  \<open>insufficient_details\<close>, and its category is the computed one; with a contact,
  gate 2 does not reject, whatever the details score.
\<close>

theorem gate2_threshold:
  assumes "cleaned_text U text \<noteq> []"
    and "\<not> gate1_rejects U cfg text"
  shows "(dscore U text = min_details_required (LeadAnalyzer_init U cfg) \<and> \<not> contact_flag U text
            \<longrightarrow> decide U cfg text = scored U cfg text
                \<and> ascii ''insufficient_details'' \<notin> set (reasons (decide U cfg text)))
       \<and> (dscore U text < min_details_required (LeadAnalyzer_init U cfg) \<and> \<not> contact_flag U text
            \<longrightarrow> decide U cfg text =
                  \<lparr>is_lead = False,
                    reasons = assembled U cfg text @ [ascii ''insufficient_details''],
                    category = computed_category U cfg text\<rparr>)
       \<and> (contact_flag U text
            \<longrightarrow> decide U cfg text = scored U cfg text
                \<and> ascii ''insufficient_details'' \<notin> set (reasons (decide U cfg text)))"
proof (intro conjI impI)
  assume "dscore U text = min_details_required (LeadAnalyzer_init U cfg) \<and> \<not> contact_flag U text"
  then have "\<not> gate2_rejects U cfg text"
    by simp
  then show d: "decide U cfg text = scored U cfg text"
    by (rule analyze_scored [OF assms])
  show "ascii ''insufficient_details'' \<notin> set (reasons (decide U cfg text))"
    unfolding d by (rule scored_reasons)
next
  assume "gate2_rejects U cfg text"
  then show "decide U cfg text =
      \<lparr>is_lead = False, reasons = assembled U cfg text @ [ascii ''insufficient_details''],
        category = computed_category U cfg text\<rparr>"
    by (rule analyze_gate2 [OF assms])
next
  assume "contact_flag U text"
  then have "\<not> gate2_rejects U cfg text"
    by simp
  then show d: "decide U cfg text = scored U cfg text"
    by (rule analyze_scored [OF assms])
  show "ascii ''insufficient_details'' \<notin> set (reasons (decide U cfg text))"
    unfolding d by (rule scored_reasons)
qed

theorem gate2_threshold_witness:
  "decide ascii_cyrillic_db example_config (Some text_buy_flat) =
     scored ascii_cyrillic_db example_config (Some text_buy_flat)
   \<and> decide ascii_cyrillic_db example_config (Some text_kuplyu) =
       \<lparr>is_lead = False,
         reasons = [ascii ''buy_keywords:1'', ascii ''insufficient_details''],
         category = ascii ''buy''\<rparr>
   \<and> ascii ''insufficient_details''
       \<notin> set (reasons (decide ascii_cyrillic_db example_config (Some text_kuplyu_mail)))"
proof -
  let ?D = ascii_cyrillic_db and ?C = example_config
  have a1: "cleaned_text ?D (Some text_buy_flat) \<noteq> []"
    and a2: "\<not> gate1_rejects ?D ?C (Some text_buy_flat)"
    and a3: "dscore ?D (Some text_buy_flat) = min_details_required (LeadAnalyzer_init ?D ?C)
             \<and> \<not> contact_flag ?D (Some text_buy_flat)"
    by code_simp+
  have b1: "cleaned_text ?D (Some text_kuplyu) \<noteq> []"
    and b2: "\<not> gate1_rejects ?D ?C (Some text_kuplyu)"
    and b3: "dscore ?D (Some text_kuplyu) < min_details_required (LeadAnalyzer_init ?D ?C)
             \<and> \<not> contact_flag ?D (Some text_kuplyu)"
    and b4: "assembled ?D ?C (Some text_kuplyu) = [ascii ''buy_keywords:1'']"
    and b5: "computed_category ?D ?C (Some text_kuplyu) = ascii ''buy''"
    by code_simp+
  have c1: "cleaned_text ?D (Some text_kuplyu_mail) \<noteq> []"
    and c2: "\<not> gate1_rejects ?D ?C (Some text_kuplyu_mail)"
    and c3: "contact_flag ?D (Some text_kuplyu_mail)"
    by code_simp+
  from gate2_threshold [OF a1 a2] a3
  have A: "decide ?D ?C (Some text_buy_flat) = scored ?D ?C (Some text_buy_flat)"
    by blast
  from gate2_threshold [OF b1 b2] b3
  have B: "decide ?D ?C (Some text_kuplyu) =
      \<lparr>is_lead = False, reasons = assembled ?D ?C (Some text_kuplyu) @ [ascii ''insufficient_details''],
        category = computed_category ?D ?C (Some text_kuplyu)\<rparr>"
    by blast
  from gate2_threshold [OF c1 c2] c3
  have C: "ascii ''insufficient_details'' \<notin> set (reasons (decide ?D ?C (Some text_kuplyu_mail)))"
    by blast
  from A B C show ?thesis
    by (simp only: b4 b5 append.simps simp_thms)
qed

text \<open>
  Claim C5. For a text whose cleaned form is not empty, the category of the decision is
  \<open>buy\<close> with buy hits and no sell hits, \<open>sell\<close> with sell hits and no buy hits,
  \<open>mixed\<close> with both, \<open>realtor_help\<close> with neither but realtor-help hits, and
  \<open>none\<close> otherwise. No gate is assumed to pass: a rejected message carries the same
  category.
\<close>

theorem category_resolution:
  assumes "cleaned_text U text \<noteq> []"
  shows "category (decide U cfg text) = computed_category U cfg text
       \<and> (buy_hits U cfg text \<noteq> [] \<and> sell_hits U cfg text = []
            \<longrightarrow> category (decide U cfg text) = ascii ''buy'')
       \<and> (sell_hits U cfg text \<noteq> [] \<and> buy_hits U cfg text = []
            \<longrightarrow> category (decide U cfg text) = ascii ''sell'')
       \<and> (buy_hits U cfg text \<noteq> [] \<and> sell_hits U cfg text \<noteq> []
            \<longrightarrow> category (decide U cfg text) = ascii ''mixed'')
       \<and> (buy_hits U cfg text = [] \<and> sell_hits U cfg text = [] \<and> realtor_hits U cfg text \<noteq> []
            \<longrightarrow> category (decide U cfg text) = ascii ''realtor_help'')
       \<and> (buy_hits U cfg text = [] \<and> sell_hits U cfg text = [] \<and> realtor_hits U cfg text = []
            \<longrightarrow> category (decide U cfg text) = ascii ''none'')"
proof -
  have c: "category (decide U cfg text) = computed_category U cfg text"
    using assms by (simp add: analyze_nonempty)
  show ?thesis
    unfolding c by (simp add: resolve_category_def)
qed

theorem category_resolution_witness:
  "cleaned_text ascii_cyrillic_db (Some text_kuplyu) \<noteq> []
   \<and> \<not> is_lead (decide ascii_cyrillic_db example_config (Some text_kuplyu))
   \<and> category (decide ascii_cyrillic_db example_config (Some text_kuplyu)) = ascii ''buy''"
proof -
  let ?D = ascii_cyrillic_db and ?C = example_config
  have h: "cleaned_text ?D (Some text_kuplyu) \<noteq> []"
    and b: "buy_hits ?D ?C (Some text_kuplyu) \<noteq> [] \<and> sell_hits ?D ?C (Some text_kuplyu) = []"
    and l: "\<not> is_lead (decide ?D ?C (Some text_kuplyu))"
    by code_simp+
  from category_resolution [OF h, of ?C] b
  have "category (decide ?D ?C (Some text_kuplyu)) = ascii ''buy''"
    by blast
  with h l show ?thesis
    by blast
qed


lemma append_if: "(if c then rs @ [x] else rs) = rs @ (if c then [x] else [])"
  by simp

lemma assemble_reasons_concat:
  "assemble_reasons bh sh uh rh dh b l a c =
     (if bh \<noteq> [] then [ascii ''buy_keywords:'' @ str_of_nat (length bh)] else [])
   @ (if sh \<noteq> [] then [ascii ''sell_keywords:'' @ str_of_nat (length sh)] else [])
   @ (if uh \<noteq> [] then [ascii ''urgency_keywords:'' @ str_of_nat (length uh)] else [])
   @ (if rh \<noteq> [] then [ascii ''realtor_keywords:'' @ str_of_nat (length rh)] else [])
   @ (if dh \<noteq> [] then [ascii ''detail_keywords:'' @ str_of_nat (length dh)] else [])
   @ (if b then [ascii ''has_budget''] else [])
   @ (if l then [ascii ''has_location''] else [])
   @ (if a then [ascii ''has_area''] else [])
   @ (if c then [ascii ''has_contact''] else [])"
  unfolding assemble_reasons_def Let_def append_if
  by (simp only: append_Nil append_assoc)

text \<open>
  Claim C6, as stated, names the count tag of the fifth keyword list
  \<open>details_keywords:<count>\<close>. The source writes \<open>detail_keywords:<count>\<close>: on a
  text with one hit in the details list the reasons hold \<open>detail_keywords:1\<close> and do
  not hold \<open>details_keywords:1\<close>.
\<close>

theorem reasons_counterexample:
  "length (detail_hits ascii_cyrillic_db example_config (Some text_buy_flat)) = 1
   \<and> reasons (decide ascii_cyrillic_db example_config (Some text_buy_flat)) =
       [ascii ''buy_keywords:1'', ascii ''detail_keywords:1'', ascii ''has_location'']
   \<and> ascii ''details_keywords:1''
       \<notin> set (reasons (decide ascii_cyrillic_db example_config (Some text_buy_flat)))"
  by code_simp

text \<open>
  Claim C6, amended. For a text whose cleaned form is not empty, the assembled reasons
  are one count tag for each keyword list with at least one hit, in the order
  \<open>buy_keywords:\<close>, \<open>sell_keywords:\<close>, \<open>urgency_keywords:\<close>,
  \<open>realtor_keywords:\<close>, \<open>detail_keywords:\<close>, each followed by the number of hits
  in decimal, then one flag tag for each true signal in the order \<open>has_budget\<close>,
  \<open>has_location\<close>, \<open>has_area\<close>, \<open>has_contact\<close>. The reasons of the decision
  are the assembled reasons, followed by the tag of the gate that rejected, if one did.
\<close>

theorem reasons_order:
  assumes "cleaned_text U text \<noteq> []"
  shows "assembled U cfg text =
     (if buy_hits U cfg text \<noteq> []
      then [ascii ''buy_keywords:'' @ str_of_nat (length (buy_hits U cfg text))] else [])
   @ (if sell_hits U cfg text \<noteq> []
      then [ascii ''sell_keywords:'' @ str_of_nat (length (sell_hits U cfg text))] else [])
   @ (if urgency_hits U cfg text \<noteq> []
      then [ascii ''urgency_keywords:'' @ str_of_nat (length (urgency_hits U cfg text))] else [])
   @ (if realtor_hits U cfg text \<noteq> []
      then [ascii ''realtor_keywords:'' @ str_of_nat (length (realtor_hits U cfg text))] else [])
   @ (if detail_hits U cfg text \<noteq> []
      then [ascii ''detail_keywords:'' @ str_of_nat (length (detail_hits U cfg text))] else [])
   @ (if budget_flag U text then [ascii ''has_budget''] else [])
   @ (if location_flag U text then [ascii ''has_location''] else [])
   @ (if area_flag U text then [ascii ''has_area''] else [])
   @ (if contact_flag U text then [ascii ''has_contact''] else [])
   \<and> reasons (decide U cfg text) =
       assembled U cfg text
       @ (if gate1_rejects U cfg text then [ascii ''no_intent'']
          else if gate2_rejects U cfg text then [ascii ''insufficient_details'']
          else [])"
proof
  show "assembled U cfg text =
     (if buy_hits U cfg text \<noteq> []
      then [ascii ''buy_keywords:'' @ str_of_nat (length (buy_hits U cfg text))] else [])
   @ (if sell_hits U cfg text \<noteq> []
      then [ascii ''sell_keywords:'' @ str_of_nat (length (sell_hits U cfg text))] else [])
   @ (if urgency_hits U cfg text \<noteq> []
      then [ascii ''urgency_keywords:'' @ str_of_nat (length (urgency_hits U cfg text))] else [])
   @ (if realtor_hits U cfg text \<noteq> []
      then [ascii ''realtor_keywords:'' @ str_of_nat (length (realtor_hits U cfg text))] else [])
   @ (if detail_hits U cfg text \<noteq> []
      then [ascii ''detail_keywords:'' @ str_of_nat (length (detail_hits U cfg text))] else [])
   @ (if budget_flag U text then [ascii ''has_budget''] else [])
   @ (if location_flag U text then [ascii ''has_location''] else [])
   @ (if area_flag U text then [ascii ''has_area''] else [])
   @ (if contact_flag U text then [ascii ''has_contact''] else [])"
    by (rule assemble_reasons_concat)
next
  consider (g1) "gate1_rejects U cfg text"
    | (g2) "\<not> gate1_rejects U cfg text" "gate2_rejects U cfg text"
    | (sc) "\<not> gate1_rejects U cfg text" "\<not> gate2_rejects U cfg text"
    by blast
  then show "reasons (decide U cfg text) =
       assembled U cfg text
       @ (if gate1_rejects U cfg text then [ascii ''no_intent'']
          else if gate2_rejects U cfg text then [ascii ''insufficient_details'']
          else [])"
  proof cases
    case g1
    show ?thesis
      unfolding analyze_gate1 [OF assms g1] by (simp only: if_P [OF g1] LeadDecision.simps)
  next
    case g2
    show ?thesis
      unfolding analyze_gate2 [OF assms g2]
      by (simp only: if_not_P [OF g2(1)] if_P [OF g2(2)] LeadDecision.simps)
  next
    case sc
    show ?thesis
      unfolding analyze_scored [OF assms sc]
      by (simp only: if_not_P [OF sc(1)] if_not_P [OF sc(2)] LeadDecision.simps append_Nil2)
  qed
qed

theorem reasons_order_witness:
  "cleaned_text ascii_cyrillic_db (Some text_kuplyu_mail) \<noteq> []
   \<and> reasons (decide ascii_cyrillic_db example_config (Some text_kuplyu_mail)) =
       [ascii ''buy_keywords:1'', ascii ''has_contact'']"
proof -
  let ?D = ascii_cyrillic_db and ?C = example_config and ?T = "Some text_kuplyu_mail"
  have h: "cleaned_text ?D ?T \<noteq> []"
    by code_simp
  have v: "buy_hits ?D ?C ?T \<noteq> []" "length (buy_hits ?D ?C ?T) = 1" "sell_hits ?D ?C ?T = []"
    "urgency_hits ?D ?C ?T = []" "realtor_hits ?D ?C ?T = []" "detail_hits ?D ?C ?T = []"
    "\<not> budget_flag ?D ?T" "\<not> location_flag ?D ?T" "\<not> area_flag ?D ?T" "contact_flag ?D ?T"
    "str_of_nat 1 = ascii ''1''"
    by code_simp+
  have g: "\<not> gate1_rejects ?D ?C ?T" "\<not> gate2_rejects ?D ?C ?T"
    using v by simp_all
  from reasons_order [OF h, of ?C] have
    "reasons (decide ?D ?C ?T) = [ascii ''buy_keywords:'' @ ascii ''1'', ascii ''has_contact'']"
    by (simp only: v g if_True if_False not_True_eq_False not_False_eq_True
          append_Nil append_Nil2 append_Cons simp_thms)
  with h show ?thesis
    by (simp add: ascii_def)
qed

text \<open>
  Claim C7. \<open>analyze\<close> is a total function: it has no failing branch. For a text whose
  trimmed, lowercased form is empty the decision is not a lead, has category \<open>none\<close>
  and the single reason \<open>empty_message\<close>. That covers an absent text and a text
  of whitespace only (\<open>str.lower\<close> maps the empty string to itself).
\<close>

theorem empty_message:
  "(cleaned_text U text = []
      \<longrightarrow> decide U cfg text =
            \<lparr>is_lead = False, reasons = [ascii ''empty_message''], category = ascii ''none''\<rparr>)
   \<and> (lower U [] = [] \<and> (text = None \<or> (text = Some t \<and> list_all (isspace U) t))
      \<longrightarrow> decide U cfg text =
            \<lparr>is_lead = False, reasons = [ascii ''empty_message''], category = ascii ''none''\<rparr>)"
proof (intro conjI impI)
  assume "cleaned_text U text = []"
  then show "decide U cfg text =
      \<lparr>is_lead = False, reasons = [ascii ''empty_message''], category = ascii ''none''\<rparr>"
    by (rule analyze_empty)
next
  assume a: "lower U [] = [] \<and> (text = None \<or> (text = Some t \<and> list_all (isspace U) t))"
  have "strip U (case text of None \<Rightarrow> [] | Some t \<Rightarrow> if t \<noteq> [] then t else []) = []"
  proof (cases "text")
    case None
    then show ?thesis by (simp add: strip_def)
  next
    case (Some u)
    with a have "list_all (isspace U) u" by simp
    then have dw: "dropWhile (isspace U) u = []"
      by (simp add: list_all_iff)
    have "strip U u = []"
      unfolding strip_def dw by simp
    moreover have "strip U [] = []"
      by (simp add: strip_def)
    ultimately show ?thesis
      using Some by simp
  qed
  with a have "cleaned_text U text = []"
    by (simp add: cleaned_text_def)
  then show "decide U cfg text =
      \<lparr>is_lead = False, reasons = [ascii ''empty_message''], category = ascii ''none''\<rparr>"
    by (rule analyze_empty)
qed

theorem empty_message_witness:
  "cleaned_text ascii_cyrillic_db (Some text_blank) = []
   \<and> decide ascii_cyrillic_db example_config (Some text_blank) =
       \<lparr>is_lead = False, reasons = [ascii ''empty_message''], category = ascii ''none''\<rparr>
   \<and> decide ascii_cyrillic_db example_config None =
       \<lparr>is_lead = False, reasons = [ascii ''empty_message''], category = ascii ''none''\<rparr>"
proof -
  have h: "cleaned_text ascii_cyrillic_db (Some text_blank) = []"
    by code_simp
  have l: "lower ascii_cyrillic_db [] = []"
    by code_simp
  from empty_message [of ascii_cyrillic_db "Some text_blank" example_config] h
    empty_message [of ascii_cyrillic_db None example_config] l
  show ?thesis
    by blast
qed

text \<open>
  Claim C9. When explicit intent is required and the decision for a text is a lead, its
  category is one of \<open>buy\<close>, \<open>sell\<close>, \<open>mixed\<close>, \<open>realtor_help\<close>, and is not
  \<open>none\<close>.
\<close>

theorem lead_has_category:
  assumes "require_explicit_intent (LeadAnalyzer_init U cfg)"
    and "is_lead (decide U cfg text)"
  shows "category (decide U cfg text)
           \<in> {ascii ''buy'', ascii ''sell'', ascii ''mixed'', ascii ''realtor_help''}
       \<and> category (decide U cfg text) \<noteq> ascii ''none''"
proof -
  have ne: "cleaned_text U text \<noteq> []"
  proof
    assume "cleaned_text U text = []"
    then have "\<not> is_lead (decide U cfg text)"
      by (simp add: analyze_empty)
    with assms(2) show False by contradiction
  qed
  have g1: "\<not> gate1_rejects U cfg text"
  proof
    assume "gate1_rejects U cfg text"
    then have "\<not> is_lead (decide U cfg text)"
      by (simp add: analyze_gate1 [OF ne])
    with assms(2) show False by contradiction
  qed
  with assms(1) have hits:
    "buy_hits U cfg text \<noteq> [] \<or> sell_hits U cfg text \<noteq> [] \<or> realtor_hits U cfg text \<noteq> []"
    by blast
  have c: "category (decide U cfg text) = computed_category U cfg text"
    using ne by (simp add: analyze_nonempty)
  from hits have "computed_category U cfg text
      \<in> {ascii ''buy'', ascii ''sell'', ascii ''mixed'', ascii ''realtor_help''}"
    by (auto simp: resolve_category_def)
  then show ?thesis
    unfolding c using category_names_distinct by auto
qed

theorem lead_has_category_witness:
  "require_explicit_intent (LeadAnalyzer_init ascii_cyrillic_db example_config)
   \<and> is_lead (decide ascii_cyrillic_db example_config (Some text_buy_flat))
   \<and> category (decide ascii_cyrillic_db example_config (Some text_buy_flat)) = ascii ''buy''"
proof -
  let ?D = ascii_cyrillic_db and ?C = example_config and ?T = "Some text_buy_flat"
  have h1: "require_explicit_intent (LeadAnalyzer_init ?D ?C)"
    and h2: "is_lead (decide ?D ?C ?T)"
    and v: "category (decide ?D ?C ?T) = ascii ''buy''"
    by code_simp+
  from lead_has_category [OF h1 h2] have "category (decide ?D ?C ?T) \<noteq> ascii ''none''"
    by blast
  with h1 h2 v show ?thesis
    by blast
qed


section \<open>Properties of the store\<close>





















section \<open>Properties of the notification target\<close>

text \<open>
  Claim C10. With a non-empty handle and a numeric target both present, the resolved
  target is the handle with surrounding whitespace stripped; the numeric target is
  returned only when the handle is absent or empty.
\<close>

theorem handle_preferred:
  "(target_bot_username n = Some h \<and> h \<noteq> [] \<and> target_telegram_id n = IntVal i
      \<longrightarrow> resolve_notification_target U n = Inr (TargetHandle (strip U h)))
   \<and> (resolve_notification_target U n = Inr (TargetId j)
      \<longrightarrow> (target_bot_username n = None \<or> target_bot_username n = Some [])
        \<and> target_telegram_id n = IntVal j)"
  by (auto simp: resolve_notification_target_def target_id_of_def
           split: option.splits id_entry.splits if_splits)

theorem handle_preferred_witness:
  "resolve_notification_target ascii_cyrillic_db notification_both =
     Inr (TargetHandle (ascii ''@my_leads_bot''))
   \<and> resolve_notification_target ascii_cyrillic_db notification_empty_handle =
     Inr (TargetId 12345)
   \<and> target_bot_username notification_empty_handle = Some []"
proof -
  let ?D = ascii_cyrillic_db
  have b: "target_bot_username notification_both = Some (ascii '' @my_leads_bot '')
           \<and> ascii '' @my_leads_bot '' \<noteq> []
           \<and> target_telegram_id notification_both = IntVal 12345"
    by code_simp
  have s: "strip ?D (ascii '' @my_leads_bot '') = ascii ''@my_leads_bot''"
    by code_simp
  have e: "resolve_notification_target ?D notification_empty_handle = Inr (TargetId 12345)"
    by code_simp
  have u: "target_bot_username notification_empty_handle \<noteq> None"
    by code_simp
  from handle_preferred [of notification_both "ascii '' @my_leads_bot ''" 12345 ?D]
    handle_preferred [of notification_empty_handle _ _ ?D 12345] b s e u
  show ?thesis
    by auto
qed

end
